theory Spec2Isabelle
  imports Complex_Main "HOL-Library.FSet"
begin

section \<open>Rufus: the relevance-guided crawl loop, its scorer and its synthesizer\<close>

text \<open>
  A shallow embedding of \<^verbatim>\<open>Rufus/client.py\<close> (\<^verbatim>\<open>RufusClient.scrape\<close>,
  \<^verbatim>\<open>scrape_multiple\<close>), \<^verbatim>\<open>Rufus/ai/engine.py\<close> (\<^verbatim>\<open>RufusAIEngine\<close>) and
  \<^verbatim>\<open>Rufus/core/synthesizer.py\<close> (\<^verbatim>\<open>DocumentSynthesizer\<close>).

  Conventions.
  \<^item> A Python \<^verbatim>\<open>str\<close> is a \<^typ>\<open>string\<close>; a Python \<^verbatim>\<open>float\<close> is a \<^typ>\<open>real\<close>
    (rounding and NaN are not modelled); a Python \<^verbatim>\<open>int\<close> is an \<^typ>\<open>int\<close>.
  \<^item> An exception is a value of \<open>error\<close>; a call that may raise returns
    \<open>error + 'a\<close> with \<open>Inl\<close> for the exception.
  \<^item> Wall-clock timestamps (\<^verbatim>\<open>datetime.now()\<close>) are left out of the records.
  \<^item> The collaborators the loop calls (crawler, extractor, scorer, link ranker, file
    system) are parameters, gathered in the record \<open>world\<close>; each is a function
    of its arguments. Three methods of \<^verbatim>\<open>DocumentSynthesizer\<close> that \<^verbatim>\<open>synthesize\<close>
    calls (\<^verbatim>\<open>_format_json\<close>, \<^verbatim>\<open>_format_markdown\<close>, \<^verbatim>\<open>_format_text\<close>) and the method
    \<^verbatim>\<open>WebCrawler.get_links\<close> that \<^verbatim>\<open>scrape\<close> calls are defined nowhere in the
    repository; they are parameters of \<open>world\<close> too, and may raise. In the
    repository as it is, calling any of the four raises \<^verbatim>\<open>AttributeError\<close>:
    \<open>repository W\<close> is the world \<open>W\<close> with the four set so. What the
    extractor returns is taken as the page's text, as the scorer's signature
    (\<^verbatim>\<open>content: str\<close>) has it.
  \<^item> \<open>trace\<close> lists, in order, the calls \<^verbatim>\<open>scrape\<close> makes to its own logger and
    its calls with an I/O effect (\<^verbatim>\<open>crawler.crawl\<close>, \<^verbatim>\<open>synthesizer.save\<close>). The
    collaborators' own logging is not modelled.
\<close>

subsection \<open>Exceptions\<close>

datatype error =
    ZeroDivisionError
  | TypeError
  | IndexError
  | AttributeError
  | ValueError string
  | Raised string

text \<open>
  \<open>Raised name\<close> stands for any exception a collaborator raises (a
  \<^verbatim>\<open>requests.RequestException\<close> of the crawler, a \<^verbatim>\<open>ContentExtractionError\<close> of
  the extractor, an error of the language model, an \<^verbatim>\<open>OSError\<close> of the file
  system). All of them are subclasses of \<^verbatim>\<open>Exception\<close>.
\<close>

subsection \<open>The engine's pure helpers\<close>

text \<open>
  \<^verbatim>\<open>content.split()\<close>: split at runs of whitespace, dropping empty tokens. The
  whitespace characters are those of \<^verbatim>\<open>str.isspace\<close> among the code points below 256.
\<close>

definition is_space :: "char \<Rightarrow> bool" where
  "is_space c = ((of_char c :: nat) \<in> {9, 10, 11, 12, 13, 28, 29, 30, 31, 32, 133, 160})"

fun split_acc :: "string \<Rightarrow> string \<Rightarrow> string list" where
  "split_acc [] cur = (if cur = [] then [] else [cur])"
| "split_acc (c # cs) cur =
     (if is_space c then (if cur = [] then split_acc cs [] else cur # split_acc cs [])
      else split_acc cs (cur @ [c]))"

definition str_split :: "string \<Rightarrow> string list" where
  "str_split s = split_acc s []"

text \<open>
  Line 92 of \<^verbatim>\<open>engine.py\<close>:
  \<^verbatim>\<open>information_density = len(set(content.split())) / len(content.split())\<close>.
  Python's true division raises \<^verbatim>\<open>ZeroDivisionError\<close> when the divisor is 0.
\<close>

definition information_density :: "string \<Rightarrow> error + real" where
  "information_density content =
     (if length (str_split content) = 0 then Inl ZeroDivisionError
      else Inr (real (card (set (str_split content))) / real (length (str_split content))))"

text \<open>
  \<^verbatim>\<open>_calculate_exploration_priority(relevance, depth)\<close>:
  \<^verbatim>\<open>depth_penalty = 1 / (1 + depth); return relevance * depth_penalty\<close>.
\<close>

definition calculate_exploration_priority :: "real \<Rightarrow> int \<Rightarrow> error + real" where
  "calculate_exploration_priority relevance depth =
     (if 1 + depth = 0 then Inl ZeroDivisionError
      else (let depth_penalty = 1 / real_of_int (1 + depth)
            in Inr (relevance * depth_penalty)))"


subsection \<open>The scorer: \<^verbatim>\<open>RufusAIEngine.analyze_content_relevance\<close>\<close>

record content_score =
  cs_relevance_score :: real
  cs_topic_match :: real
  cs_information_density :: real
  cs_url :: string
  cs_summary :: string

text \<open>A prompt template filled in with its variables.\<close>

datatype prompt =
    AnalysisPrompt string string
  | NavigationPrompt string string string

text \<open>
  What the engine computes through libraries: the TF-IDF cosine similarity of two texts
  (\<^verbatim>\<open>TfidfVectorizer(stop_words='english').fit_transform([a, b])\<close> and entry
  \<^verbatim>\<open>[0, 1]\<close> of the product with the transpose; it raises on an empty vocabulary), the
  text of the language model's first generation for a prompt, and \<^verbatim>\<open>float(s)\<close>.
\<close>

record engine =
  e_tfidf :: "string \<Rightarrow> string \<Rightarrow> error + real"
  e_llm :: "prompt \<Rightarrow> error + string"
  e_float :: "string \<Rightarrow> error + real"
  e_max_tokens :: int

text \<open>\<^verbatim>\<open>s[:n]\<close>: the first \<open>n\<close> characters, or all but the last \<open>-n\<close> when \<open>n < 0\<close>.\<close>

definition slice_to :: "string \<Rightarrow> int \<Rightarrow> string" where
  "slice_to s n = (if 0 \<le> n then take (nat n) s else take (length s - nat (- n)) s)"

text \<open>
  \<^verbatim>\<open>s[k]\<close> on a \<^verbatim>\<open>str\<close>: an integer key indexes a character (negative keys count
  from the end, out of range raises \<^verbatim>\<open>IndexError\<close>); a string key raises
  \<^verbatim>\<open>TypeError\<close> (string indices must be integers).
\<close>

datatype key = IntKey int | StrKey string

fun str_getitem :: "string \<Rightarrow> key \<Rightarrow> error + string" where
  "str_getitem s (StrKey k) = Inl TypeError"
| "str_getitem s (IntKey i) =
     (if 0 \<le> i \<and> i < int (length s) then Inr [s ! nat i]
      else if i < 0 \<and> - int (length s) \<le> i then Inr [s ! nat (int (length s) + i)]
      else Inl IndexError)"

definition calculate_topic_match :: "engine \<Rightarrow> string \<Rightarrow> string \<Rightarrow> error + real" where
  "calculate_topic_match E content query = e_tfidf E content query"

text \<open>
  \<^verbatim>\<open>analyze_content_relevance(content, query, url)\<close>, in the source's order of
  evaluation: the TF-IDF score, the prompt and the model call, the information density,
  the topic match, then the arguments of \<^verbatim>\<open>ContentScore(...)\<close> from left to right,
  where \<^verbatim>\<open>analysis\<close> is the model's response text. The \<^verbatim>\<open>except\<close> clause logs and
  re-raises, so the exception raised is the function's result.
\<close>

definition analyze_content_relevance ::
  "engine \<Rightarrow> string \<Rightarrow> string \<Rightarrow> string \<Rightarrow> error + content_score" where
  "analyze_content_relevance E content query url =
     (case e_tfidf E content query of Inl e \<Rightarrow> Inl e | Inr ml_relevance_score \<Rightarrow>
     (case e_llm E (AnalysisPrompt (slice_to content (e_max_tokens E)) query) of
        Inl e \<Rightarrow> Inl e | Inr analysis \<Rightarrow>
     (case information_density content of Inl e \<Rightarrow> Inl e | Inr density \<Rightarrow>
     (case calculate_topic_match E content query of Inl e \<Rightarrow> Inl e | Inr topic_match \<Rightarrow>
     (case str_getitem analysis (StrKey ''relevance'') of Inl e \<Rightarrow> Inl e | Inr rel \<Rightarrow>
     (case e_float E rel of Inl e \<Rightarrow> Inl e | Inr llm_relevance \<Rightarrow>
     (case str_getitem analysis (StrKey ''key_information'') of
        Inl e \<Rightarrow> Inl e | Inr summary \<Rightarrow>
        Inr \<lparr>cs_relevance_score = (ml_relevance_score + llm_relevance) / 2,
             cs_topic_match = topic_match,
             cs_information_density = density,
             cs_url = url,
             cs_summary = summary\<rparr>)))))))"

subsection \<open>The synthesizer: \<^verbatim>\<open>DocumentSynthesizer\<close>\<close>

text \<open>
  An item of \<^verbatim>\<open>results: List[Dict]\<close>: a dict with the keys \<^verbatim>\<open>url\<close> and
  \<^verbatim>\<open>content\<close> (read with \<^verbatim>\<open>result[...]\<close>) and the optional keys read with
  \<^verbatim>\<open>result.get(key, default)\<close>.
\<close>

record result =
  r_url :: string
  r_content :: string
  r_relevance_score :: "real option"
  r_structured_data :: "(string \<times> string) list option"
  r_depth :: "int option"
  r_parent_url :: "string option"

record document =
  d_url :: string
  d_content :: string
  d_relevance_score :: real
  d_source :: string
  d_extracted_data :: "(string \<times> string) list"
  d_depth :: int
  d_parent_url :: string

text \<open>
  \<^verbatim>\<open>_process_results\<close>: the loop over \<^verbatim>\<open>results\<close> with its two variables
  \<^verbatim>\<open>seen_content\<close> (a set of hashes) and \<^verbatim>\<open>processed_results\<close>. The built-in
  \<^verbatim>\<open>hash\<close> of strings is the parameter \<open>h\<close>.
\<close>

fun process_loop ::
  "(string \<Rightarrow> int) \<Rightarrow> result list \<Rightarrow> int set \<Rightarrow> result list \<Rightarrow> result list" where
  "process_loop h [] seen_content processed_results = processed_results"
| "process_loop h (result # rest) seen_content processed_results =
     (let content_hash = h (r_content result)
      in if content_hash \<notin> seen_content
         then process_loop h rest (insert content_hash seen_content) (processed_results @ [result])
         else process_loop h rest seen_content processed_results)"

definition process_results :: "(string \<Rightarrow> int) \<Rightarrow> result list \<Rightarrow> result list" where
  "process_results h results = process_loop h results {} []"

text \<open>
  Deduplication in the spec's words, for comparison: a page is kept when no earlier page
  has the same key (first seen wins).
\<close>

fun first_seen :: "('a \<Rightarrow> 'k) \<Rightarrow> 'a list \<Rightarrow> 'a list" where
  "first_seen key [] = []"
| "first_seen key (x # xs) = x # first_seen key (filter (\<lambda>y. key y \<noteq> key x) xs)"

definition structure_documents :: "result list \<Rightarrow> document list" where
  "structure_documents results =
     map (\<lambda>result.
            \<lparr>d_url = r_url result,
             d_content = r_content result,
             d_relevance_score = (case r_relevance_score result of None \<Rightarrow> 0 | Some x \<Rightarrow> x),
             d_source = ''web'',
             d_extracted_data = (case r_structured_data result of None \<Rightarrow> [] | Some x \<Rightarrow> x),
             d_depth = (case r_depth result of None \<Rightarrow> 0 | Some x \<Rightarrow> x),
             d_parent_url = (case r_parent_url result of None \<Rightarrow> [] | Some x \<Rightarrow> x)\<rparr>)
         results"

text \<open>\<^verbatim>\<open>str.lower()\<close> on code points below 256.\<close>

definition lower_char :: "char \<Rightarrow> char" where
  "lower_char c =
     (let n = (of_char c :: nat)
      in if (65 \<le> n \<and> n \<le> 90) \<or> (192 \<le> n \<and> n \<le> 222 \<and> n \<noteq> 215)
         then char_of (n + 32) else c)"

definition str_lower :: "string \<Rightarrow> string" where
  "str_lower s = map lower_char s"

text \<open>What \<^verbatim>\<open>synthesize\<close> returns: a list of documents or a rendered string.\<close>

datatype synthesized = Documents "document list" | Rendered string

subsection \<open>Pages, links and suggestions\<close>

text \<open>
  What \<^verbatim>\<open>WebCrawler.crawl\<close> returns (the key \<^verbatim>\<open>structured_data\<close> is left out: the
  loop does not read it), a link as \<^verbatim>\<open>suggest_navigation_paths\<close> reads it, and a
  suggestion as it returns it.
\<close>

record page =
  pg_url :: string
  pg_content :: string
  pg_links :: "string list"

record link =
  ln_text :: string
  ln_url :: string
  ln_depth :: int

record suggestion =
  sg_url :: string
  sg_text :: string
  sg_relevance_score :: real
  sg_exploration_priority :: real

text \<open>
  \<^verbatim>\<open>synthesize(results, format)\<close>. The format is compared after deduplication and
  structuring; the \<^verbatim>\<open>except\<close> clause logs and re-raises.
\<close>

record world =
  w_crawl :: "string \<Rightarrow> error + page"
  w_get_links :: "string list \<Rightarrow> error + link list"
  w_extract :: "page \<Rightarrow> string \<Rightarrow> error + string"
  w_analyze :: "string \<Rightarrow> string \<Rightarrow> string \<Rightarrow> error + content_score"
  w_suggest :: "string \<Rightarrow> link list \<Rightarrow> string \<Rightarrow> error + suggestion list"
  w_hash :: "string \<Rightarrow> int"
  w_format_json :: "document list \<Rightarrow> error + synthesized"
  w_format_markdown :: "document list \<Rightarrow> error + synthesized"
  w_format_text :: "document list \<Rightarrow> error + synthesized"
  w_save :: "synthesized \<Rightarrow> error option"

definition synthesize :: "world \<Rightarrow> result list \<Rightarrow> string \<Rightarrow> error + synthesized" where
  "synthesize W results format =
     (let processed_results = process_results (w_hash W) results;
          documents = structure_documents processed_results
      in if str_lower format = ''json'' then w_format_json W documents
         else if str_lower format = ''markdown'' then w_format_markdown W documents
         else if str_lower format = ''text'' then w_format_text W documents
         else Inl (ValueError (''Unsupported format: '' @ format)))"

subsection \<open>The crawl loop: \<^verbatim>\<open>RufusClient.scrape\<close>\<close>

text \<open>
  \<^verbatim>\<open>SearchResult\<close> (a dataclass; its \<^verbatim>\<open>metadata\<close> dict has the two keys
  \<^verbatim>\<open>topic_match\<close> and \<^verbatim>\<open>information_density\<close>).
\<close>

record search_result =
  sr_url :: string
  sr_content :: string
  sr_relevance_score :: real
  sr_topic_match :: real
  sr_information_density :: real

datatype event =
    Info_starting string
  | Debug_crawling string
  | Call_crawl string
  | Call_save synthesized
  | Info_complete
  | Error_scraping error
  | Error_parallel error

text \<open>The local variables of \<^verbatim>\<open>scrape\<close>, and the trace.\<close>

record state =
  urls_to_visit :: "string list"
  visited_urls :: "string fset"
  results :: "search_result list"
  trace :: "event list"

text \<open>
  The \<^verbatim>\<open>for page in next_pages\<close> loop of lines 123 to 126: a suggestion's URL is
  appended when it is not in \<^verbatim>\<open>visited_urls\<close> and its relevance is above the threshold.
\<close>

fun enqueue :: "string fset \<Rightarrow> real \<Rightarrow> suggestion list \<Rightarrow> string list \<Rightarrow> string list" where
  "enqueue visited min_relevance [] queue = queue"
| "enqueue visited min_relevance (page # next_pages) queue =
     (if sg_url page |\<notin>| visited \<and> sg_relevance_score page > min_relevance
      then enqueue visited min_relevance next_pages (queue @ [sg_url page])
      else enqueue visited min_relevance next_pages queue)"

text \<open>
  One pass through the body of the \<^verbatim>\<open>while\<close> loop (lines 82 to 126). The result is
  the state the pass leaves and the exception it raises, if any. No statement of the body
  is inside a \<^verbatim>\<open>try\<close> of its own: the only \<^verbatim>\<open>try\<close> of \<^verbatim>\<open>scrape\<close> encloses the
  whole loop. \<^verbatim>\<open>pop(0)\<close> on an empty list raises \<^verbatim>\<open>IndexError\<close>. After
  \<^verbatim>\<open>crawl\<close> has returned the page, the crawler's \<^verbatim>\<open>links\<close> attribute holds that
  page's links, which is what \<^verbatim>\<open>get_links\<close> is applied to.
\<close>

definition scrape_iteration :: "world \<Rightarrow> string \<Rightarrow> real \<Rightarrow> state \<Rightarrow> state \<times> error option" where
  "scrape_iteration W instructions min_relevance s =
     (case urls_to_visit s of
        [] \<Rightarrow> (s, Some IndexError)
      | current_url # rest \<Rightarrow>
         (let s1 = s\<lparr>urls_to_visit := rest\<rparr> in
          if current_url |\<in>| visited_urls s1 then (s1, None)
          else
           (let s2 = s1\<lparr>trace := trace s1 @ [Debug_crawling current_url, Call_crawl current_url]\<rparr> in
            (case w_crawl W current_url of
               Inl e \<Rightarrow> (s2, Some e)
             | Inr page_content \<Rightarrow>
                (let s3 = s2\<lparr>visited_urls := finsert current_url (visited_urls s2)\<rparr> in
                 (case w_extract W page_content current_url of
                    Inl e \<Rightarrow> (s3, Some e)
                  | Inr extracted_content \<Rightarrow>
                     (case w_analyze W extracted_content instructions current_url of
                        Inl e \<Rightarrow> (s3, Some e)
                      | Inr content_score \<Rightarrow>
                         if cs_relevance_score content_score \<ge> min_relevance then
                           (let s4 = s3\<lparr>results := results s3 @
                                  [\<lparr>sr_url = current_url,
                                    sr_content = extracted_content,
                                    sr_relevance_score = cs_relevance_score content_score,
                                    sr_topic_match = cs_topic_match content_score,
                                    sr_information_density = cs_information_density content_score\<rparr>]\<rparr> in
                            (case w_get_links W (pg_links page_content) of
                               Inl e \<Rightarrow> (s4, Some e)
                             | Inr links \<Rightarrow>
                                (case w_suggest W extracted_content links instructions of
                                   Inl e \<Rightarrow> (s4, Some e)
                                 | Inr next_pages \<Rightarrow>
                                    (s4\<lparr>urls_to_visit :=
                                          enqueue (visited_urls s4) min_relevance next_pages
                                            (urls_to_visit s4)\<rparr>, None))))
                         else (s3, None))))))))"

text \<open>The loop condition of line 81.\<close>

definition loop_condition :: "int \<Rightarrow> state \<Rightarrow> bool" where
  "loop_condition max_pages s =
     (urls_to_visit s \<noteq> [] \<and> int (fcard (visited_urls s)) < max_pages)"

text \<open>
  A pass that raises nothing either skips a visited URL, which shortens the queue, or
  adds a new URL to \<^verbatim>\<open>visited_urls\<close>. This is what makes the loop terminate.
\<close>

lemma scrape_iteration_progress:
  assumes "scrape_iteration W i mr s = (s', None)" and "urls_to_visit s \<noteq> []"
  shows "(visited_urls s' = visited_urls s \<and> length (urls_to_visit s') < length (urls_to_visit s))
       \<or> (\<exists>u. u |\<notin>| visited_urls s \<and> visited_urls s' = finsert u (visited_urls s))"
  using assms
  by (auto simp: scrape_iteration_def Let_def split: list.splits sum.splits if_splits)

text \<open>
  The \<^verbatim>\<open>while\<close> loop. An exception raised by a pass leaves the loop with it.
\<close>

function scrape_loop :: "world \<Rightarrow> string \<Rightarrow> int \<Rightarrow> real \<Rightarrow> state \<Rightarrow> state \<times> error option" where
  "scrape_loop W instructions max_pages min_relevance s =
     (if loop_condition max_pages s then
        (case scrape_iteration W instructions min_relevance s of
           (s', Some e) \<Rightarrow> (s', Some e)
         | (s', None) \<Rightarrow> scrape_loop W instructions max_pages min_relevance s')
      else (s, None))"
  by pat_completeness auto
termination
proof (relation "measures [\<lambda>(W, i, mp, mr, s). nat (mp - int (fcard (visited_urls s))),
                           \<lambda>(W, i, mp, mr, s). length (urls_to_visit s)]")
  show "wf (measures [\<lambda>(W, i, mp, mr, s). nat (mp - int (fcard (visited_urls s))),
                      \<lambda>(W, i, mp, mr, s). length (urls_to_visit s)])"
    by simp
next
  fix W :: world and instructions max_pages min_relevance s x1 x2
  assume c: "loop_condition max_pages s"
    and it: "(x1, x2) = scrape_iteration W instructions min_relevance s"
    and n: "x2 = None"
  from it n have "scrape_iteration W instructions min_relevance s = (x1, None)"
    by simp
  from scrape_iteration_progress [OF this] c
  show "((W, instructions, max_pages, min_relevance, x1),
         (W, instructions, max_pages, min_relevance, s))
          \<in> measures [\<lambda>(W, i, mp, mr, s). nat (mp - int (fcard (visited_urls s))),
                       \<lambda>(W, i, mp, mr, s). length (urls_to_visit s)]"
    by (auto simp: loop_condition_def fcard_finsert_disjoint)
qed

declare scrape_loop.simps [simp del]

definition initial_state :: "string \<Rightarrow> string \<Rightarrow> state" where
  "initial_state url instructions =
     \<lparr>urls_to_visit = [url], visited_urls = {||}, results = [],
      trace = [Info_starting instructions]\<rparr>"

text \<open>
  Line 129 hands the list of \<^verbatim>\<open>SearchResult\<close> objects to \<^verbatim>\<open>synthesize\<close>. A
  \<^verbatim>\<open>SearchResult\<close> is a dataclass instance, not a dict: \<^verbatim>\<open>_process_results\<close>
  subscripts the first item (\<^verbatim>\<open>result["content"]\<close>), which raises \<^verbatim>\<open>TypeError\<close>
  (the object is not subscriptable). With an empty list the loops of
  \<^verbatim>\<open>_process_results\<close> and \<^verbatim>\<open>_structure_documents\<close> have nothing to do.
\<close>

definition synthesize_results :: "world \<Rightarrow> search_result list \<Rightarrow> string \<Rightarrow> error + synthesized" where
  "synthesize_results W rs format =
     (case rs of [] \<Rightarrow> synthesize W [] format | r # _ \<Rightarrow> Inl TypeError)"

text \<open>
  \<^verbatim>\<open>scrape(url, instructions, max_pages, min_relevance, output_format)\<close>: the trace
  and either the exception re-raised by the \<^verbatim>\<open>except\<close> clause or the value returned.
  \<^verbatim>\<open>save\<close> is called only after \<^verbatim>\<open>synthesize\<close> has returned.
\<close>

definition scrape ::
  "world \<Rightarrow> string \<Rightarrow> string \<Rightarrow> int \<Rightarrow> real \<Rightarrow> string \<Rightarrow> event list \<times> (error + synthesized)" where
  "scrape W url instructions max_pages min_relevance output_format =
     (case scrape_loop W instructions max_pages min_relevance (initial_state url instructions) of
        (s, Some e) \<Rightarrow> (trace s @ [Error_scraping e], Inl e)
      | (s, None) \<Rightarrow>
         (case synthesize_results W (results s) output_format of
            Inl e \<Rightarrow> (trace s @ [Error_scraping e], Inl e)
          | Inr documents \<Rightarrow>
             (case w_save W documents of
                Some e \<Rightarrow> (trace s @ [Call_save documents, Error_scraping e], Inl e)
              | None \<Rightarrow> (trace s @ [Call_save documents, Info_complete], Inr documents))))"

subsection \<open>\<^verbatim>\<open>RufusClient.scrape_multiple\<close>\<close>





subsection \<open>The methods the repository does not define\<close>

text \<open>
  Looking up a method that the class does not define raises \<^verbatim>\<open>AttributeError\<close>, before
  the call's other arguments are used. \<open>repository W\<close> is the world in which
  \<^verbatim>\<open>get_links\<close>, \<^verbatim>\<open>_format_json\<close>, \<^verbatim>\<open>_format_markdown\<close> and \<^verbatim>\<open>_format_text\<close>
  behave as they do in the repository, with the other collaborators those of \<open>W\<close>.
\<close>

definition undefined_method :: "'a \<Rightarrow> error + 'b" where
  "undefined_method x = Inl AttributeError"

definition repository :: "world \<Rightarrow> world" where
  "repository W =
     W\<lparr>w_get_links := undefined_method,
       w_format_json := undefined_method,
       w_format_markdown := undefined_method,
       w_format_text := undefined_method\<rparr>"

subsection \<open>Reading a trace\<close>

text \<open>The URLs \<^verbatim>\<open>crawler.crawl\<close> was called on, in the order of the calls.\<close>

fun fetched :: "event list \<Rightarrow> string list" where
  "fetched [] = []"
| "fetched (Call_crawl u # es) = u # fetched es"
| "fetched (e # es) = fetched es"

text \<open>The values \<^verbatim>\<open>synthesizer.save\<close> was called on.\<close>

fun saved :: "event list \<Rightarrow> synthesized list" where
  "saved [] = []"
| "saved (Call_save d # es) = d # saved es"
| "saved (e # es) = saved es"



text \<open>
  The invariant of the loop head: every call of \<^verbatim>\<open>crawl\<close> so far was on a different
  URL, the URLs fetched are the ones in \<^verbatim>\<open>visited_urls\<close>, and their number is within
  the page budget (a budget below 0 counts as 0).
\<close>

definition crawl_inv :: "int \<Rightarrow> state \<Rightarrow> bool" where
  "crawl_inv mp s =
     (distinct (fetched (trace s)) \<and> set (fetched (trace s)) = fset (visited_urls s)
      \<and> int (fcard (visited_urls s)) \<le> max 0 mp)"

subsection \<open>A sample site\<close>

text \<open>
  Four pages A, B, C and D, each linking to all four. The scorer gives A and B the
  relevance 0.9 and the others 0.1; the ranker gives the link to C the relevance 0.5 and
  every other link 0.8. Fetching a URL listed in \<open>dead\<close> raises.
\<close>

definition example_page :: "string \<Rightarrow> page" where
  "example_page u = \<lparr>pg_url = u, pg_content = u, pg_links = [''A'', ''B'', ''C'', ''D'']\<rparr>"

definition example_score :: "string \<Rightarrow> content_score" where
  "example_score u =
     \<lparr>cs_relevance_score = (if u = ''A'' \<or> u = ''B'' then 9 / 10 else 1 / 10),
      cs_topic_match = 1 / 2, cs_information_density = 1, cs_url = u, cs_summary = []\<rparr>"

definition example_link :: "string \<Rightarrow> link" where
  "example_link l = \<lparr>ln_text = l, ln_url = l, ln_depth = 1\<rparr>"

definition example_suggestion :: "link \<Rightarrow> suggestion" where
  "example_suggestion l =
     \<lparr>sg_url = ln_url l, sg_text = ln_text l,
      sg_relevance_score = (if ln_url l = ''C'' then 1 / 2 else 4 / 5),
      sg_exploration_priority = (if ln_url l = ''C'' then 1 / 4 else 2 / 5)\<rparr>"

definition example_world :: "string list \<Rightarrow> world" where
  "example_world dead =
     \<lparr>w_crawl = (\<lambda>u. if u \<in> set dead then Inl (Raised ''RequestException'')
                      else Inr (example_page u)),
      w_get_links = (\<lambda>ls. Inr (map example_link ls)),
      w_extract = (\<lambda>p u. Inr (pg_content p)),
      w_analyze = (\<lambda>c q u. Inr (example_score u)),
      w_suggest = (\<lambda>c ls g. Inr (map example_suggestion ls)),
      w_hash = (\<lambda>s. int (length s)),
      w_format_json = (\<lambda>ds. Inr (Documents ds)),
      w_format_markdown = (\<lambda>ds. Inr (Rendered ''# Results'')),
      w_format_text = (\<lambda>ds. Inr (Rendered ''Results'')),
      w_save = (\<lambda>d. None)\<rparr>"

text \<open>
  An engine whose libraries all return: the TF-IDF similarity is 0.5 and the model's
  response text is a string.
\<close>

definition example_engine :: engine where
  "example_engine =
     \<lparr>e_tfidf = (\<lambda>a b. Inr (1 / 2)),
      e_llm = (\<lambda>p. Inr ''relevance: 0.9''),
      e_float = (\<lambda>s. Inr (9 / 10)),
      e_max_tokens = 1000\<rparr>"

text \<open>A result dict with the keys \<^verbatim>\<open>url\<close>, \<^verbatim>\<open>content\<close> and \<^verbatim>\<open>relevance_score\<close>.\<close>

definition example_result :: "string \<Rightarrow> string \<Rightarrow> result" where
  "example_result u c =
     \<lparr>r_url = u, r_content = c, r_relevance_score = Some (9 / 10), r_structured_data = None,
      r_depth = None, r_parent_url = None\<rparr>"

section \<open>Properties\<close>

subsection \<open>The loop: auxiliary facts\<close>

lemma fetched_append: "fetched (xs @ ys) = fetched xs @ fetched ys"
  by (induction xs rule: fetched.induct) simp_all

lemma enqueue_filter:
  "enqueue v mr ps q =
     q @ map sg_url (filter (\<lambda>p. sg_url p |\<notin>| v \<and> mr < sg_relevance_score p) ps)"
  by (induction ps arbitrary: q) simp_all

lemma scrape_loop_cases:
  assumes "P s"
    and step: "\<And>s s'. P s \<Longrightarrow> loop_condition mp s \<Longrightarrow> scrape_iteration W i mr s = (s', None) \<Longrightarrow> P s'"
  shows "(\<exists>s'. scrape_loop W i mp mr s = (s', None) \<and> P s' \<and> \<not> loop_condition mp s')
       \<or> (\<exists>s0 s' e. scrape_loop W i mp mr s = (s', Some e) \<and> P s0 \<and> loop_condition mp s0
                     \<and> scrape_iteration W i mr s0 = (s', Some e))"
  using assms
proof (induction W i mp mr s rule: scrape_loop.induct)
  case (1 W i mp mr s)
  note Ps = "1.prems"(1) and st = "1.prems"(2)
  show ?case
  proof (cases "loop_condition mp s")
    case False
    then show ?thesis using Ps by (simp add: scrape_loop.simps)
  next
    case True
    obtain s' r where it: "scrape_iteration W i mr s = (s', r)"
      by (cases "scrape_iteration W i mr s")
    show ?thesis
    proof (cases r)
      case None
      have "P s'" using st [OF Ps True] it None by simp
      from "1.IH" [OF True it [symmetric] None this st]
      show ?thesis
        using True it None by (simp add: scrape_loop.simps [of W i mp mr s])
    next
      case (Some e)
      have "scrape_loop W i mp mr s = (s', Some e)"
        using True it Some by (simp add: scrape_loop.simps [of W i mp mr s])
      then show ?thesis
        using True it Some Ps by blast
    qed
  qed
qed

lemma crawl_inv_initial: "crawl_inv mp (initial_state url i)"
  by (simp add: crawl_inv_def initial_state_def fcard_fempty)

lemma crawl_inv_length:
  "crawl_inv mp s \<Longrightarrow> length (fetched (trace s)) = fcard (visited_urls s)"
  by (metis crawl_inv_def distinct_card fcard.rep_eq)

lemma iteration_trace:
  assumes "urls_to_visit s = u # rest"
  shows "trace (fst (scrape_iteration W i mr s)) =
           (if u |\<in>| visited_urls s then trace s
            else trace s @ [Debug_crawling u, Call_crawl u])"
  using assms by (simp add: scrape_iteration_def Let_def split: sum.splits)

lemma iteration_visited:
  assumes "urls_to_visit s = u # rest"
  shows "visited_urls (fst (scrape_iteration W i mr s)) =
           (if u |\<in>| visited_urls s \<or> isl (w_crawl W u) then visited_urls s
            else finsert u (visited_urls s))"
  using assms by (simp add: scrape_iteration_def Let_def split: sum.splits)

lemma iteration_crawl_failed:
  assumes "urls_to_visit s = u # rest" and "u |\<notin>| visited_urls s" and "isl (w_crawl W u)"
  shows "snd (scrape_iteration W i mr s) \<noteq> None"
  using assms by (cases "w_crawl W u") (simp_all add: scrape_iteration_def Let_def)

lemma crawl_inv_step:
  assumes inv: "crawl_inv mp s" and c: "loop_condition mp s"
    and it: "scrape_iteration W i mr s = (s', None)"
  shows "crawl_inv mp s'"
proof -
  obtain u rest where q: "urls_to_visit s = u # rest"
    using c by (cases "urls_to_visit s") (simp_all add: loop_condition_def)
  have tr: "trace s' = (if u |\<in>| visited_urls s then trace s
            else trace s @ [Debug_crawling u, Call_crawl u])"
    using iteration_trace [OF q, of W i mr] it by simp
  have vi: "visited_urls s' = (if u |\<in>| visited_urls s \<or> isl (w_crawl W u) then visited_urls s
            else finsert u (visited_urls s))"
    using iteration_visited [OF q, of W i mr] it by simp
  show ?thesis
  proof (cases "u |\<in>| visited_urls s")
    case True
    then show ?thesis using inv tr vi by (simp add: crawl_inv_def)
  next
    case False
    then have ok: "\<not> isl (w_crawl W u)"
      using iteration_crawl_failed [OF q False, of W i mr] it by auto
    have "int (fcard (finsert u (visited_urls s))) \<le> max 0 mp"
      using False c by (simp add: loop_condition_def fcard_finsert_disjoint)
    then show ?thesis
      using inv tr vi False ok by (simp add: crawl_inv_def fetched_append)
  qed
qed

lemma crawl_inv_abort:
  assumes inv: "crawl_inv mp s" and c: "loop_condition mp s"
    and it: "scrape_iteration W i mr s = (s', Some e)"
  shows "distinct (fetched (trace s')) \<and> int (length (fetched (trace s'))) \<le> max 0 mp
       \<and> int (fcard (visited_urls s')) \<le> max 0 mp"
proof -
  obtain u rest where q: "urls_to_visit s = u # rest"
    using c by (cases "urls_to_visit s") (simp_all add: loop_condition_def)
  have len: "length (fetched (trace s)) = fcard (visited_urls s)"
    using inv by (rule crawl_inv_length)
  have tr: "trace s' = (if u |\<in>| visited_urls s then trace s
            else trace s @ [Debug_crawling u, Call_crawl u])"
    using iteration_trace [OF q, of W i mr] it by simp
  have vi: "visited_urls s' = (if u |\<in>| visited_urls s \<or> isl (w_crawl W u) then visited_urls s
            else finsert u (visited_urls s))"
    using iteration_visited [OF q, of W i mr] it by simp
  have lt: "int (fcard (visited_urls s)) < mp"
    using c by (simp add: loop_condition_def)
  show ?thesis
  proof (cases "u |\<in>| visited_urls s")
    case True
    then show ?thesis using inv tr vi len by (simp add: crawl_inv_def)
  next
    case False
    have "int (fcard (finsert u (visited_urls s))) \<le> max 0 mp"
      using False lt by (simp add: fcard_finsert_disjoint)
    moreover have "int (fcard (visited_urls s)) \<le> max 0 mp"
      using lt by simp
    moreover have "int (length (fetched (trace s'))) \<le> max 0 mp"
      using tr False len lt by (simp add: fetched_append)
    moreover have "distinct (fetched (trace s'))"
      using tr False inv by (simp add: fetched_append crawl_inv_def)
    ultimately show ?thesis
      using vi by simp
  qed
qed

lemma scrape_loop_bounds:
  "distinct (fetched (trace (fst (scrape_loop W i mp mr (initial_state url i)))))
   \<and> int (length (fetched (trace (fst (scrape_loop W i mp mr (initial_state url i)))))) \<le> max 0 mp
   \<and> int (fcard (visited_urls (fst (scrape_loop W i mp mr (initial_state url i))))) \<le> max 0 mp"
proof -
  have "(\<exists>s'. scrape_loop W i mp mr (initial_state url i) = (s', None) \<and> crawl_inv mp s'
            \<and> \<not> loop_condition mp s')
       \<or> (\<exists>s0 s' e. scrape_loop W i mp mr (initial_state url i) = (s', Some e) \<and> crawl_inv mp s0
            \<and> loop_condition mp s0 \<and> scrape_iteration W i mr s0 = (s', Some e))"
    by (rule scrape_loop_cases [where P = "crawl_inv mp"])
       (auto intro: crawl_inv_initial crawl_inv_step)
  then consider s' where "scrape_loop W i mp mr (initial_state url i) = (s', None)" "crawl_inv mp s'"
    | s0 s' e where "scrape_loop W i mp mr (initial_state url i) = (s', Some e)"
        "crawl_inv mp s0" "loop_condition mp s0" "scrape_iteration W i mr s0 = (s', Some e)"
    by blast
  then show ?thesis
  proof cases
    case 1
    then show ?thesis
      using crawl_inv_length [OF 1(2)] by (simp add: crawl_inv_def)
  next
    case 2
    then show ?thesis
      using crawl_inv_abort [OF 2(2) 2(3) 2(4)] by simp
  qed
qed

lemma fetched_scrape:
  "fetched (fst (scrape W url i mp mr fmt)) =
     fetched (trace (fst (scrape_loop W i mp mr (initial_state url i))))"
  by (simp add: scrape_def fetched_append split: prod.splits option.splits sum.splits)

lemmas example_eval =
  example_world_def example_page_def example_score_def example_link_def example_suggestion_def
  initial_state_def loop_condition_def scrape_iteration_def Let_def
  fcard_finsert_if fcard_fempty

lemma scrape_loop_stop: "\<not> loop_condition mp s \<Longrightarrow> scrape_loop W i mp mr s = (s, None)"
  by (simp add: scrape_loop.simps)



text \<open>Facts about the world as the repository has it.\<close>

lemma synthesize_repository:
  "synthesize (repository W) rs fmt =
     Inl (if str_lower fmt = ''json'' \<or> str_lower fmt = ''markdown'' \<or> str_lower fmt = ''text''
          then AttributeError else ValueError (''Unsupported format: '' @ fmt))"
  by (simp add: synthesize_def repository_def undefined_method_def)

lemma scrape_repository_raises: "isl (snd (scrape (repository W) url i mp mr fmt))"
proof -
  obtain s r where l: "scrape_loop (repository W) i mp mr (initial_state url i) = (s, r)"
    by (cases "scrape_loop (repository W) i mp mr (initial_state url i)")
  have "isl (synthesize_results (repository W) (results s) fmt)"
    by (simp add: synthesize_results_def synthesize_repository split: list.splits)
  then show ?thesis
    using l by (cases r; cases "synthesize_results (repository W) (results s) fmt")
      (simp_all add: scrape_def)
qed


subsection \<open>Per-URL failures\<close>

text \<open>
  C1 (as stated, refuted on the sample site with B dead): the claim says a failing URL is
  skipped and the loop goes on with the rest of the frontier. Here A is fetched and
  accepted, B and D are enqueued, the fetch of B raises: the loop ends with D still in the
  frontier, and \<open>scrape\<close> re-raises the exception; the accepted page A is not returned.
\<close>

theorem fetch_failure_counterexample:
  "scrape_loop (example_world [''B'']) ''goal'' 10 (7 / 10) (initial_state ''A'' ''goal'')
     = (\<lparr>urls_to_visit = [''D''], visited_urls = {|''A''|},
         results = [\<lparr>sr_url = ''A'', sr_content = ''A'', sr_relevance_score = 9 / 10,
                     sr_topic_match = 1 / 2, sr_information_density = 1\<rparr>],
         trace = [Info_starting ''goal'', Debug_crawling ''A'', Call_crawl ''A'',
                  Debug_crawling ''B'', Call_crawl ''B'']\<rparr>,
        Some (Raised ''RequestException''))
   \<and> scrape (example_world [''B'']) ''A'' ''goal'' 10 (7 / 10) ''json''
     = ([Info_starting ''goal'', Debug_crawling ''A'', Call_crawl ''A'',
         Debug_crawling ''B'', Call_crawl ''B'', Error_scraping (Raised ''RequestException'')],
        Inl (Raised ''RequestException''))"
  by (simp add: scrape_def scrape_loop.simps example_eval)

text \<open>
  C1 (amended): a per-URL failure is not caught inside the loop. A fetch error, or a
  scoring error, ends the pass with that exception (the URL taken off the queue, and, for
  the scoring error, already marked visited); an exception raised by a pass ends the loop
  with the rest of the frontier unprocessed; \<open>scrape\<close> logs it and re-raises it, and
  returns no documents.
\<close>

theorem failure_aborts_crawl:
  "(urls_to_visit s = u # rest \<and> u |\<notin>| visited_urls s \<and> w_crawl W u = Inl e
      \<longrightarrow> scrape_iteration W i mr s =
            (s\<lparr>urls_to_visit := rest,
               trace := trace s @ [Debug_crawling u, Call_crawl u]\<rparr>, Some e))
   \<and> (urls_to_visit s = u # rest \<and> u |\<notin>| visited_urls s \<and> w_crawl W u = Inr pg
        \<and> w_extract W pg u = Inr c \<and> w_analyze W c i u = Inl e
      \<longrightarrow> scrape_iteration W i mr s =
            (s\<lparr>urls_to_visit := rest,
               visited_urls := finsert u (visited_urls s),
               trace := trace s @ [Debug_crawling u, Call_crawl u]\<rparr>, Some e))
   \<and> (loop_condition mp s \<and> scrape_iteration W i mr s = (s', Some e)
      \<longrightarrow> scrape_loop W i mp mr s = (s', Some e))
   \<and> (scrape_loop W i mp mr (initial_state url i) = (s', Some e)
      \<longrightarrow> scrape W url i mp mr fmt = (trace s' @ [Error_scraping e], Inl e))"
proof -
  have a: "urls_to_visit s = u # rest \<and> u |\<notin>| visited_urls s \<and> w_crawl W u = Inl e
      \<longrightarrow> scrape_iteration W i mr s =
            (s\<lparr>urls_to_visit := rest,
               trace := trace s @ [Debug_crawling u, Call_crawl u]\<rparr>, Some e)"
    by (simp add: scrape_iteration_def Let_def)
  have b: "urls_to_visit s = u # rest \<and> u |\<notin>| visited_urls s \<and> w_crawl W u = Inr pg
        \<and> w_extract W pg u = Inr c \<and> w_analyze W c i u = Inl e
      \<longrightarrow> scrape_iteration W i mr s =
            (s\<lparr>urls_to_visit := rest,
               visited_urls := finsert u (visited_urls s),
               trace := trace s @ [Debug_crawling u, Call_crawl u]\<rparr>, Some e)"
    by (simp add: scrape_iteration_def Let_def)
  have c: "loop_condition mp s \<and> scrape_iteration W i mr s = (s', Some e)
      \<longrightarrow> scrape_loop W i mp mr s = (s', Some e)"
    by (simp add: scrape_loop.simps [of W i mp mr s])
  have d: "scrape_loop W i mp mr (initial_state url i) = (s', Some e)
      \<longrightarrow> scrape W url i mp mr fmt = (trace s' @ [Error_scraping e], Inl e)"
    by (simp add: scrape_def)
  show ?thesis
    using a b c d by blast
qed

theorem failure_aborts_crawl_witness:
  "urls_to_visit \<lparr>urls_to_visit = [''B'', ''D''], visited_urls = {|''A''|}, results = [], trace = []\<rparr>
      = ''B'' # [''D'']
   \<and> ''B'' |\<notin>| visited_urls
        \<lparr>urls_to_visit = [''B'', ''D''], visited_urls = {|''A''|}, results = [], trace = []\<rparr>
   \<and> w_crawl (example_world [''B'']) ''B'' = Inl (Raised ''RequestException'')
   \<and> loop_condition 10
        \<lparr>urls_to_visit = [''B'', ''D''], visited_urls = {|''A''|}, results = [], trace = []\<rparr>
   \<and> scrape_iteration (example_world [''B'']) ''goal'' (7 / 10)
        \<lparr>urls_to_visit = [''B'', ''D''], visited_urls = {|''A''|}, results = [], trace = []\<rparr>
      = (\<lparr>urls_to_visit = [''D''], visited_urls = {|''A''|}, results = [],
          trace = [Debug_crawling ''B'', Call_crawl ''B'']\<rparr>, Some (Raised ''RequestException''))
   \<and> scrape_loop (example_world [''B'']) ''goal'' 10 (7 / 10)
        \<lparr>urls_to_visit = [''B'', ''D''], visited_urls = {|''A''|}, results = [], trace = []\<rparr>
      = (\<lparr>urls_to_visit = [''D''], visited_urls = {|''A''|}, results = [],
          trace = [Debug_crawling ''B'', Call_crawl ''B'']\<rparr>, Some (Raised ''RequestException''))
   \<and> scrape (example_world [''B'']) ''B'' ''goal'' 10 (7 / 10) ''json''
      = ([Info_starting ''goal'', Debug_crawling ''B'', Call_crawl ''B'',
          Error_scraping (Raised ''RequestException'')], Inl (Raised ''RequestException''))
   \<and> w_crawl (example_world [] \<lparr>w_analyze := \<lambda>c q u. Inl (Raised ''ScoringError'')\<rparr>) ''B''
      = Inr (example_page ''B'')
   \<and> w_extract (example_world [] \<lparr>w_analyze := \<lambda>c q u. Inl (Raised ''ScoringError'')\<rparr>)
        (example_page ''B'') ''B'' = Inr ''B''
   \<and> w_analyze (example_world [] \<lparr>w_analyze := \<lambda>c q u. Inl (Raised ''ScoringError'')\<rparr>)
        ''B'' ''goal'' ''B'' = Inl (Raised ''ScoringError'')
   \<and> scrape_iteration (example_world [] \<lparr>w_analyze := \<lambda>c q u. Inl (Raised ''ScoringError'')\<rparr>)
        ''goal'' (7 / 10)
        \<lparr>urls_to_visit = [''B'', ''D''], visited_urls = {|''A''|}, results = [], trace = []\<rparr>
      = (\<lparr>urls_to_visit = [''D''], visited_urls = {|''B'', ''A''|}, results = [],
          trace = [Debug_crawling ''B'', Call_crawl ''B'']\<rparr>, Some (Raised ''ScoringError''))"
proof -
  let ?V = "example_world [] \<lparr>w_analyze := \<lambda>c q u. Inl (Raised ''ScoringError'')\<rparr>"
  let ?f = "Raised ''ScoringError''"
  let ?W = "example_world [''B'']"
  let ?e = "Raised ''RequestException''"
  let ?s = "\<lparr>urls_to_visit = [''B'', ''D''], visited_urls = {|''A''|}, results = [], trace = []\<rparr>"
  let ?s' = "\<lparr>urls_to_visit = [''D''], visited_urls = {|''A''|}, results = [],
          trace = [Debug_crawling ''B'', Call_crawl ''B'']\<rparr>"
  let ?t = "\<lparr>urls_to_visit = [], visited_urls = {||}, results = [],
          trace = [Info_starting ''goal'', Debug_crawling ''B'', Call_crawl ''B'']\<rparr>"
  have h: "urls_to_visit ?s = ''B'' # [''D''] \<and> ''B'' |\<notin>| visited_urls ?s \<and> w_crawl ?W ''B'' = Inl ?e"
    by (simp add: example_world_def)
  have lc: "loop_condition 10 ?s"
    by (simp add: loop_condition_def fcard_finsert_if fcard_fempty)
  have it: "scrape_iteration ?W ''goal'' (7 / 10) ?s = (?s', Some ?e)"
    using failure_aborts_crawl [where s = ?s and u = "''B''" and rest = "[''D'']" and W = ?W
        and e = ?e and i = "''goal''" and mr = "7 / 10"] h
    by simp
  have lp: "scrape_loop ?W ''goal'' 10 (7 / 10) ?s = (?s', Some ?e)"
    using failure_aborts_crawl [where s = ?s and W = ?W and e = ?e and i = "''goal''"
        and mr = "7 / 10" and mp = 10 and s' = ?s'] lc it
    by blast
  have "scrape_loop ?W ''goal'' 10 (7 / 10) (initial_state ''B'' ''goal'') = (?t, Some ?e)"
    by (simp add: scrape_loop.simps example_eval)
  then have sc: "scrape ?W ''B'' ''goal'' 10 (7 / 10) ''json'' = (trace ?t @ [Error_scraping ?e], Inl ?e)"
    using failure_aborts_crawl [where W = ?W and e = ?e and i = "''goal''" and mr = "7 / 10"
        and mp = 10 and url = "''B''" and s' = ?t and fmt = "''json''"]
    by blast
  have g: "urls_to_visit ?s = ''B'' # [''D''] \<and> ''B'' |\<notin>| visited_urls ?s
      \<and> w_crawl ?V ''B'' = Inr (example_page ''B'')
      \<and> w_extract ?V (example_page ''B'') ''B'' = Inr ''B''
      \<and> w_analyze ?V ''B'' ''goal'' ''B'' = Inl ?f"
    by (simp add: example_world_def example_page_def)
  have sc2: "scrape_iteration ?V ''goal'' (7 / 10) ?s
      = (\<lparr>urls_to_visit = [''D''], visited_urls = {|''B'', ''A''|}, results = [],
          trace = [Debug_crawling ''B'', Call_crawl ''B'']\<rparr>, Some ?f)"
    using failure_aborts_crawl [where s = ?s and u = "''B''" and rest = "[''D'']" and W = ?V
        and e = ?f and i = "''goal''" and mr = "7 / 10" and pg = "example_page ''B''"
        and c = "''B''"] g
    by simp
  show ?thesis
    using h lc it lp sc g sc2 by simp
qed

subsection \<open>Threshold gating\<close>


subsection \<open>Bounded crawl\<close>

text \<open>
  C4: with a page budget \<open>max_pages\<close>, a crawl run ends with at most \<open>max_pages\<close>
  visited URLs and has called \<^verbatim>\<open>crawl\<close> at most \<open>max_pages\<close> times; the loop makes
  no pass from a state whose visited set does not have fewer than \<open>max_pages\<close> elements.
\<close>

theorem bounded_crawl:
  "int (fcard (visited_urls (fst (scrape_loop W i mp mr (initial_state url i))))) \<le> max 0 mp
   \<and> int (length (fetched (fst (scrape W url i mp mr fmt)))) \<le> max 0 mp
   \<and> (\<not> int (fcard (visited_urls s)) < mp \<longrightarrow> scrape_loop W i mp mr s = (s, None))"
  using scrape_loop_bounds [of W i mp mr url]
  by (simp add: fetched_scrape scrape_loop_stop loop_condition_def)

theorem bounded_crawl_witness:
  "\<not> int (fcard (visited_urls
        \<lparr>urls_to_visit = [''D'', ''D''], visited_urls = {|''B'', ''A''|}, results = [],
         trace = []\<rparr>)) < 2
   \<and> scrape_loop (example_world []) ''goal'' 2 (7 / 10)
        \<lparr>urls_to_visit = [''D'', ''D''], visited_urls = {|''B'', ''A''|}, results = [],
         trace = []\<rparr>
       = (\<lparr>urls_to_visit = [''D'', ''D''], visited_urls = {|''B'', ''A''|}, results = [],
           trace = []\<rparr>, None)
   \<and> visited_urls (fst (scrape_loop (example_world []) ''goal'' 2 (7 / 10)
        (initial_state ''A'' ''goal''))) = {|''B'', ''A''|}
   \<and> fetched (fst (scrape (example_world []) ''A'' ''goal'' 2 (7 / 10) ''json'')) = [''A'', ''B'']
   \<and> int (fcard {|''B'', ''A''|}) \<le> max 0 2 \<and> int (length [''A'', ''B'']) \<le> max 0 2"
proof -
  let ?s = "\<lparr>urls_to_visit = [''D'', ''D''], visited_urls = {|''B'', ''A''|}, results = [],
         trace = []\<rparr>"
  have h: "\<not> int (fcard (visited_urls ?s)) < 2"
    by (simp add: fcard_finsert_if fcard_fempty)
  have stop: "scrape_loop (example_world []) ''goal'' 2 (7 / 10) ?s = (?s, None)"
    using bounded_crawl [of "example_world []" "''goal''" 2 "7 / 10" "''A''" "''json''" ?s] h
    by blast
  have run: "scrape_loop (example_world []) ''goal'' 2 (7 / 10) (initial_state ''A'' ''goal'')
      = (\<lparr>urls_to_visit = [''D'', ''D''], visited_urls = {|''B'', ''A''|},
          results = [\<lparr>sr_url = ''A'', sr_content = ''A'', sr_relevance_score = 9 / 10,
                      sr_topic_match = 1 / 2, sr_information_density = 1\<rparr>,
                     \<lparr>sr_url = ''B'', sr_content = ''B'', sr_relevance_score = 9 / 10,
                      sr_topic_match = 1 / 2, sr_information_density = 1\<rparr>],
          trace = [Info_starting ''goal'', Debug_crawling ''A'', Call_crawl ''A'',
                   Debug_crawling ''B'', Call_crawl ''B'']\<rparr>, None)"
    by (simp add: scrape_loop.simps example_eval)
  have f: "fetched (fst (scrape (example_world []) ''A'' ''goal'' 2 (7 / 10) ''json'')) = [''A'', ''B'']"
    by (simp add: fetched_scrape run)
  show ?thesis
    using h stop f by (simp add: run fcard_finsert_if fcard_fempty)
qed

subsection \<open>No revisits\<close>

text \<open>
  C5: no URL is fetched twice in a crawl run; a pass over a URL that is in the visited
  set fetches nothing (it only takes the URL off the queue), and a pass that fetches a
  URL puts it in the visited set.
\<close>

theorem no_revisit:
  "distinct (fetched (fst (scrape W url i mp mr fmt)))
   \<and> (urls_to_visit s = u # rest \<and> u |\<in>| visited_urls s
        \<longrightarrow> scrape_iteration W i mr s = (s\<lparr>urls_to_visit := rest\<rparr>, None))
   \<and> (urls_to_visit s = u # rest \<and> u |\<notin>| visited_urls s \<and> w_crawl W u = Inr pg
        \<longrightarrow> u |\<in>| visited_urls (fst (scrape_iteration W i mr s)))"
proof -
  have a: "distinct (fetched (fst (scrape W url i mp mr fmt)))"
    using scrape_loop_bounds [of W i mp mr url] by (simp add: fetched_scrape)
  have b: "urls_to_visit s = u # rest \<and> u |\<in>| visited_urls s
        \<longrightarrow> scrape_iteration W i mr s = (s\<lparr>urls_to_visit := rest\<rparr>, None)"
    by (simp add: scrape_iteration_def)
  have c: "urls_to_visit s = u # rest \<and> u |\<notin>| visited_urls s \<and> w_crawl W u = Inr pg
        \<longrightarrow> u |\<in>| visited_urls (fst (scrape_iteration W i mr s))"
    by (simp add: iteration_visited)
  show ?thesis using a b c by blast
qed

theorem no_revisit_witness:
  "urls_to_visit \<lparr>urls_to_visit = [''D''], visited_urls = {|''D'', ''B'', ''A''|}, results = [],
       trace = []\<rparr> = ''D'' # []
   \<and> ''D'' |\<in>| visited_urls \<lparr>urls_to_visit = [''D''], visited_urls = {|''D'', ''B'', ''A''|},
       results = [], trace = []\<rparr>
   \<and> scrape_iteration (example_world []) ''goal'' (7 / 10)
        \<lparr>urls_to_visit = [''D''], visited_urls = {|''D'', ''B'', ''A''|}, results = [],
         trace = []\<rparr>
      = (\<lparr>urls_to_visit = [], visited_urls = {|''D'', ''B'', ''A''|}, results = [],
          trace = []\<rparr>, None)
   \<and> fetched (fst (scrape (example_world []) ''A'' ''goal'' 10 (7 / 10) ''json''))
      = [''A'', ''B'', ''D'']
   \<and> urls_to_visit (initial_state ''A'' ''goal'') = ''A'' # []
   \<and> ''A'' |\<notin>| visited_urls (initial_state ''A'' ''goal'')
   \<and> w_crawl (example_world []) ''A'' = Inr (example_page ''A'')
   \<and> ''A'' |\<in>| visited_urls (fst (scrape_iteration (example_world []) ''goal'' (7 / 10)
                                      (initial_state ''A'' ''goal'')))"
proof -
  let ?s = "\<lparr>urls_to_visit = [''D''], visited_urls = {|''D'', ''B'', ''A''|}, results = [],
         trace = []\<rparr>"
  have h: "urls_to_visit ?s = ''D'' # [] \<and> ''D'' |\<in>| visited_urls ?s"
    by simp
  have skip: "scrape_iteration (example_world []) ''goal'' (7 / 10) ?s
      = (?s\<lparr>urls_to_visit := []\<rparr>, None)"
    using no_revisit [of "example_world []" "''A''" "''goal''" 10 "7 / 10" "''json''" ?s "''D''" "[]"] h
    by blast
  have run: "fetched (fst (scrape (example_world []) ''A'' ''goal'' 10 (7 / 10) ''json''))
      = [''A'', ''B'', ''D'']"
    by (simp add: fetched_scrape scrape_loop.simps example_eval)
  have g: "urls_to_visit (initial_state ''A'' ''goal'') = ''A'' # []
      \<and> ''A'' |\<notin>| visited_urls (initial_state ''A'' ''goal'')
      \<and> w_crawl (example_world []) ''A'' = Inr (example_page ''A'')"
    by (simp add: initial_state_def example_world_def)
  have m: "''A'' |\<in>| visited_urls (fst (scrape_iteration (example_world []) ''goal'' (7 / 10)
                                      (initial_state ''A'' ''goal'')))"
    using no_revisit [where W = "example_world []" and i = "''goal''" and mr = "7 / 10"
        and s = "initial_state ''A'' ''goal''" and u = "''A''" and rest = "[]"
        and pg = "example_page ''A''"] g
    by blast
  show ?thesis
    using h skip run g m by simp
qed

subsection \<open>The scorer always raises\<close>

lemma analyze_raises: "isl (analyze_content_relevance E content query url)"
  by (simp add: analyze_content_relevance_def split: sum.splits)

lemma analyze_error:
  assumes "e_tfidf E content query = Inr ml"
    and "e_llm E (AnalysisPrompt (slice_to content (e_max_tokens E)) query) = Inr analysis"
  shows "analyze_content_relevance E content query url =
           Inl (if str_split content = [] then ZeroDivisionError else TypeError)"
  using assms
  by (simp add: analyze_content_relevance_def information_density_def calculate_topic_match_def)

lemma iteration_scorer_raises:
  assumes "\<And>c q u. isl (w_analyze W c q u)"
  shows "results (fst (scrape_iteration W i mr s)) = results s"
proof (cases "urls_to_visit s")
  case Nil
  then show ?thesis by (simp add: scrape_iteration_def)
next
  case (Cons u rest)
  show ?thesis
  proof (cases "w_crawl W u")
    case (Inl e)
    then show ?thesis using Cons by (simp add: scrape_iteration_def Let_def)
  next
    case (Inr pg)
    show ?thesis
    proof (cases "w_extract W pg u")
      case (Inl e)
      then show ?thesis using Cons Inr by (simp add: scrape_iteration_def Let_def)
    next
      case c: (Inr c)
      obtain e where "w_analyze W c i u = Inl e"
        using assms [of c i u] by (cases "w_analyze W c i u") simp_all
      then show ?thesis using Cons Inr c by (simp add: scrape_iteration_def Let_def)
    qed
  qed
qed

lemma iteration_scorer_raises_skip:
  assumes "\<And>c q u. isl (w_analyze W c q u)"
    and "scrape_iteration W i mr s = (s', None)"
  shows "visited_urls s' = visited_urls s \<and> trace s' = trace s"
proof (cases "urls_to_visit s")
  case Nil
  then show ?thesis using assms(2) by (simp add: scrape_iteration_def)
next
  case (Cons u rest)
  show ?thesis
  proof (cases "u |\<in>| visited_urls s")
    case True
    then show ?thesis using Cons assms(2) by (auto simp: scrape_iteration_def Let_def)
  next
    case False
    show ?thesis
    proof (cases "w_crawl W u")
      case (Inl e)
      then show ?thesis using Cons False assms(2) by (simp add: scrape_iteration_def Let_def)
    next
      case (Inr pg)
      show ?thesis
      proof (cases "w_extract W pg u")
        case (Inl e)
        then show ?thesis using Cons False Inr assms(2) by (simp add: scrape_iteration_def Let_def)
      next
        case c: (Inr c)
        obtain e where "w_analyze W c i u = Inl e"
          using assms(1) [of c i u] by (cases "w_analyze W c i u") simp_all
        then show ?thesis using Cons False Inr c assms(2) by (simp add: scrape_iteration_def Let_def)
      qed
    qed
  qed
qed

lemma loop_scorer_raises:
  assumes "\<And>c q u. isl (w_analyze W c q u)"
  shows "results (fst (scrape_loop W i mp mr (initial_state url i))) = []"
proof -
  let ?P = "\<lambda>s. results s = []"
  have step: "?P s'" if "?P s" "scrape_iteration W i mr s = (s', r)" for s s' r
    using iteration_scorer_raises [OF assms, of i mr s] that by simp
  have "(\<exists>s'. scrape_loop W i mp mr (initial_state url i) = (s', None) \<and> ?P s'
            \<and> \<not> loop_condition mp s')
       \<or> (\<exists>s0 s' e. scrape_loop W i mp mr (initial_state url i) = (s', Some e) \<and> ?P s0
            \<and> loop_condition mp s0 \<and> scrape_iteration W i mr s0 = (s', Some e))"
  proof (rule scrape_loop_cases [where P = ?P])
    show "?P (initial_state url i)"
      by (simp add: initial_state_def)
  next
    fix s s'
    assume "?P s" and "scrape_iteration W i mr s = (s', None)"
    then show "?P s'" by (rule step)
  qed
  then consider s' where "scrape_loop W i mp mr (initial_state url i) = (s', None)" "?P s'"
    | s0 s' e where "scrape_loop W i mp mr (initial_state url i) = (s', Some e)" "?P s0"
        "scrape_iteration W i mr s0 = (s', Some e)"
    by blast
  then show ?thesis
  proof cases
    case 1
    then show ?thesis by simp
  next
    case 2
    then show ?thesis using step [OF 2(2) 2(3)] by simp
  qed
qed

lemma scrape_no_results:
  assumes "results (fst (scrape_loop W i mp mr (initial_state url i))) = []"
  shows "isl (snd (scrape W url i mp mr fmt)) \<or> snd (scrape W url i mp mr fmt) = synthesize W [] fmt"
  using assms
  by (auto simp: scrape_def synthesize_results_def split: prod.splits option.splits sum.splits)

text \<open>
  C2: whenever the TF-IDF computation and the model call return,
  \<open>analyze_content_relevance\<close> raises before it builds a \<^verbatim>\<open>ContentScore\<close>:
  \<^verbatim>\<open>ZeroDivisionError\<close> when the content has no token, and otherwise the
  \<^verbatim>\<open>TypeError\<close> of indexing the response text with the key \<^verbatim>\<open>'relevance'\<close>; in every
  case its result is an exception. So with this scorer the result list of a crawl run is
  empty, a pass that ends without an exception has fetched and scored nothing, and
  \<open>scrape\<close> either raises or returns what \<open>synthesize\<close> makes of the empty list,
  that is, what a formatter returns for no document. In the repository, where the
  formatters are not defined, \<open>scrape\<close> raises on every run (whatever the scorer): it
  returns no document list at all.
\<close>

theorem scoring_always_raises:
  "(e_tfidf E content query = Inr ml
      \<and> e_llm E (AnalysisPrompt (slice_to content (e_max_tokens E)) query) = Inr analysis
      \<longrightarrow> analyze_content_relevance E content query url =
            Inl (if str_split content = [] then ZeroDivisionError else TypeError))
   \<and> isl (analyze_content_relevance E content query url)
   \<and> (w_analyze W = analyze_content_relevance E \<longrightarrow>
        results (fst (scrape_loop W i mp mr (initial_state u i))) = []
        \<and> (scrape_iteration W i mr s = (s', None) \<longrightarrow>
              results s' = results s \<and> visited_urls s' = visited_urls s \<and> trace s' = trace s)
        \<and> (isl (snd (scrape W u i mp mr fmt))
             \<or> snd (scrape W u i mp mr fmt) = synthesize W [] fmt))
   \<and> synthesize W [] fmt =
        (if str_lower fmt = ''json'' then w_format_json W []
         else if str_lower fmt = ''markdown'' then w_format_markdown W []
         else if str_lower fmt = ''text'' then w_format_text W []
         else Inl (ValueError (''Unsupported format: '' @ fmt)))
   \<and> isl (snd (scrape (repository W) u i mp mr fmt))"
proof -
  have a: "e_tfidf E content query = Inr ml
      \<and> e_llm E (AnalysisPrompt (slice_to content (e_max_tokens E)) query) = Inr analysis
      \<longrightarrow> analyze_content_relevance E content query url =
            Inl (if str_split content = [] then ZeroDivisionError else TypeError)"
    using analyze_error by blast
  have b: "isl (analyze_content_relevance E content query url)"
    by (rule analyze_raises)
  have c: "results (fst (scrape_loop W i mp mr (initial_state u i))) = []
        \<and> (scrape_iteration W i mr s = (s', None) \<longrightarrow>
              results s' = results s \<and> visited_urls s' = visited_urls s \<and> trace s' = trace s)
        \<and> (isl (snd (scrape W u i mp mr fmt))
             \<or> snd (scrape W u i mp mr fmt) = synthesize W [] fmt)"
    if w: "w_analyze W = analyze_content_relevance E"
  proof -
    have r: "isl (w_analyze W c q v)" for c q v
      using w analyze_raises by simp
    have c1: "results (fst (scrape_loop W i mp mr (initial_state u i))) = []"
      using r by (rule loop_scorer_raises)
    have c2: "results s' = results s \<and> visited_urls s' = visited_urls s \<and> trace s' = trace s"
      if it: "scrape_iteration W i mr s = (s', None)"
      using iteration_scorer_raises [of W i mr s, OF r] iteration_scorer_raises_skip [OF r it] it
      by simp
    show ?thesis
      using c1 c2 scrape_no_results [OF c1] by blast
  qed
  have d: "synthesize W [] fmt =
        (if str_lower fmt = ''json'' then w_format_json W []
         else if str_lower fmt = ''markdown'' then w_format_markdown W []
         else if str_lower fmt = ''text'' then w_format_text W []
         else Inl (ValueError (''Unsupported format: '' @ fmt)))"
    by (simp add: synthesize_def process_results_def structure_documents_def)
  have r: "isl (snd (scrape (repository W) u i mp mr fmt))"
    by (rule scrape_repository_raises)
  show ?thesis
    using a b c d r by blast
qed

theorem scoring_always_raises_witness:
  "e_tfidf example_engine ''about hiring'' ''hiring'' = Inr (1 / 2)
   \<and> e_llm example_engine
        (AnalysisPrompt (slice_to ''about hiring'' (e_max_tokens example_engine)) ''hiring'')
       = Inr ''relevance: 0.9''
   \<and> analyze_content_relevance example_engine ''about hiring'' ''hiring'' ''A'' = Inl TypeError
   \<and> w_analyze (example_world [] \<lparr>w_analyze := analyze_content_relevance example_engine\<rparr>)
       = analyze_content_relevance example_engine
   \<and> results (fst (scrape_loop
         (example_world [] \<lparr>w_analyze := analyze_content_relevance example_engine\<rparr>)
         ''goal'' 10 (7 / 10) (initial_state ''A'' ''goal''))) = []
   \<and> scrape (example_world [] \<lparr>w_analyze := analyze_content_relevance example_engine\<rparr>)
         ''A'' ''goal'' 10 (7 / 10) ''json''
       = ([Info_starting ''goal'', Debug_crawling ''A'', Call_crawl ''A'', Error_scraping TypeError],
          Inl TypeError)
   \<and> scrape_iteration
         (example_world [] \<lparr>w_analyze := analyze_content_relevance example_engine\<rparr>)
         ''goal'' (7 / 10)
         \<lparr>urls_to_visit = [''A''], visited_urls = {|''A''|}, results = [], trace = []\<rparr>
       = (\<lparr>urls_to_visit = [], visited_urls = {|''A''|}, results = [], trace = []\<rparr>, None)
   \<and> visited_urls \<lparr>urls_to_visit = [], visited_urls = {|''A''|}, results = [], trace = []\<rparr>
       = visited_urls
           \<lparr>urls_to_visit = [''A''], visited_urls = {|''A''|}, results = [], trace = []\<rparr>
   \<and> scrape (repository
         (example_world [] \<lparr>w_analyze := analyze_content_relevance example_engine\<rparr>))
         ''A'' ''goal'' 0 (7 / 10) ''json''
       = ([Info_starting ''goal'', Error_scraping AttributeError], Inl AttributeError)
   \<and> isl (snd (scrape (repository
         (example_world [] \<lparr>w_analyze := analyze_content_relevance example_engine\<rparr>))
         ''A'' ''goal'' 10 (7 / 10) ''json''))"
proof -
  let ?s = "\<lparr>urls_to_visit = [''A''], visited_urls = {|''A''|}, results = [], trace = []\<rparr>"
  let ?s' = "\<lparr>urls_to_visit = [], visited_urls = {|''A''|}, results = [], trace = []\<rparr>"
  let ?E = example_engine
  let ?W = "example_world [] \<lparr>w_analyze := analyze_content_relevance example_engine\<rparr>"
  have h: "e_tfidf ?E ''about hiring'' ''hiring'' = Inr (1 / 2)
      \<and> e_llm ?E (AnalysisPrompt (slice_to ''about hiring'' (e_max_tokens ?E)) ''hiring'')
          = Inr ''relevance: 0.9''"
    by (simp add: example_engine_def)
  have t: "str_split ''about hiring'' \<noteq> []"
    by (simp add: str_split_def is_space_def)
  have a: "analyze_content_relevance ?E ''about hiring'' ''hiring'' ''A'' = Inl TypeError"
    using scoring_always_raises [where E = ?E and content = "''about hiring''"
        and query = "''hiring''" and ml = "1 / 2" and analysis = "''relevance: 0.9''"
        and url = "''A''" and W = ?W] h t
    by simp
  have w: "w_analyze ?W = analyze_content_relevance ?E"
    by simp
  have r: "results (fst (scrape_loop ?W ''goal'' 10 (7 / 10) (initial_state ''A'' ''goal''))) = []"
    using scoring_always_raises [where E = ?E and W = ?W and i = "''goal''" and mp = 10
        and mr = "7 / 10" and u = "''A''"] w
    by blast
  have sA: "str_split ''A'' \<noteq> []"
    by (simp add: str_split_def is_space_def)
  have aA: "analyze_content_relevance ?E ''A'' ''goal'' ''A'' = Inl TypeError"
    using sA
    by (simp add: analyze_content_relevance_def information_density_def calculate_topic_match_def
        example_engine_def)
  have sc: "scrape ?W ''A'' ''goal'' 10 (7 / 10) ''json''
       = ([Info_starting ''goal'', Debug_crawling ''A'', Call_crawl ''A'', Error_scraping TypeError],
          Inl TypeError)"
    by (simp add: scrape_def scrape_loop.simps example_world_def example_page_def
        initial_state_def loop_condition_def scrape_iteration_def Let_def fcard_fempty aA)
  have it: "scrape_iteration ?W ''goal'' (7 / 10) ?s = (?s', None)"
    by (simp add: scrape_iteration_def)
  have v: "visited_urls ?s' = visited_urls ?s"
    using scoring_always_raises [where E = ?E and W = ?W and i = "''goal''" and mr = "7 / 10"
        and s = ?s and s' = ?s'] w it
    by blast
  have j: "str_lower ''json'' = ''json''"
    by (simp add: str_lower_def lower_char_def)
  have l0: "scrape_loop (repository ?W) ''goal'' 0 (7 / 10) (initial_state ''A'' ''goal'')
      = (initial_state ''A'' ''goal'', None)"
    by (simp add: scrape_loop.simps loop_condition_def)
  have s0: "scrape (repository ?W) ''A'' ''goal'' 0 (7 / 10) ''json''
       = ([Info_starting ''goal'', Error_scraping AttributeError], Inl AttributeError)"
    unfolding scrape_def l0
    by (simp add: synthesize_results_def synthesize_repository j initial_state_def)
  have s1: "isl (snd (scrape (repository ?W) ''A'' ''goal'' 10 (7 / 10) ''json''))"
    using scoring_always_raises [where W = ?W and u = "''A''" and i = "''goal''" and mp = 10
        and mr = "7 / 10" and fmt = "''json''"]
    by blast
  show ?thesis
    using h a w r sc it v s0 s1 by simp
qed

subsection \<open>Deduplication\<close>

lemma set_first_seen: "set (first_seen key xs) \<subseteq> set xs"
  by (induction key xs rule: first_seen.induct) auto

lemma distinct_first_seen: "distinct (map key (first_seen key xs))"
proof (induction key xs rule: first_seen.induct)
  case (1 key)
  then show ?case by simp
next
  case (2 key x xs)
  have "key x \<notin> key ` set (first_seen key (filter (\<lambda>y. key y \<noteq> key x) xs))"
    using set_first_seen [of key "filter (\<lambda>y. key y \<noteq> key x) xs"] by auto
  then show ?case using 2 by simp
qed

lemma first_seen_cong:
  assumes "\<And>x y. x \<in> set xs \<Longrightarrow> y \<in> set xs \<Longrightarrow> (k1 x = k1 y) = (k2 x = k2 y)"
  shows "first_seen k1 xs = first_seen k2 xs"
  using assms
proof (induction k1 xs rule: first_seen.induct)
  case (1 key)
  then show ?case by simp
next
  case (2 key x xs)
  have f: "filter (\<lambda>y. key y \<noteq> key x) xs = filter (\<lambda>y. k2 y \<noteq> k2 x) xs"
    using "2.prems" by (intro filter_cong) auto
  have "first_seen key (filter (\<lambda>y. key y \<noteq> key x) xs)
      = first_seen k2 (filter (\<lambda>y. key y \<noteq> key x) xs)"
    using "2.prems" by (intro "2.IH") auto
  then show ?case using f by simp
qed

lemma process_loop_first_seen:
  "process_loop h rs seen acc =
     acc @ first_seen (\<lambda>r. h (r_content r)) (filter (\<lambda>r. h (r_content r) \<notin> seen) rs)"
proof (induction rs arbitrary: seen acc)
  case Nil
  then show ?case by simp
next
  case (Cons r rs)
  have "filter (\<lambda>y. h (r_content y) \<noteq> h (r_content r)) (filter (\<lambda>r. h (r_content r) \<notin> seen) rs)
      = filter (\<lambda>y. h (r_content y) \<notin> insert (h (r_content r)) seen) rs"
    by (simp add: conj_commute)
  then show ?case using Cons by (simp add: Let_def)
qed

lemma process_results_first_seen:
  "process_results h rs = first_seen (\<lambda>r. h (r_content r)) rs"
  by (simp add: process_results_def process_loop_first_seen)

text \<open>
  What \<^verbatim>\<open>_process_results\<close> does, for every hash and every list: a page is kept
  exactly when no earlier page has the same content hash, so the pages kept have pairwise
  different contents; where the hash does not collide on the contents at hand this is
  first-seen deduplication by content; a page followed by a page of the same content
  leaves the first page alone.
\<close>

lemma process_results_dedup:
  "process_results h rs = first_seen (\<lambda>r. h (r_content r)) rs
   \<and> distinct (map r_content (process_results h rs))
   \<and> (inj_on h (r_content ` set rs) \<longrightarrow> process_results h rs = first_seen r_content rs)
   \<and> process_results h [x, y\<lparr>r_content := r_content x\<rparr>] = [x]
   \<and> length (structure_documents (process_results h [x, y\<lparr>r_content := r_content x\<rparr>])) = 1"
proof -
  have a: "process_results h rs = first_seen (\<lambda>r. h (r_content r)) rs"
    by (rule process_results_first_seen)
  have "distinct (map h (map r_content (process_results h rs)))"
    using distinct_first_seen [of "\<lambda>r. h (r_content r)" rs] by (simp add: a comp_def)
  then have b: "distinct (map r_content (process_results h rs))"
    using distinct_map [of h "map r_content (process_results h rs)"] by blast
  have c: "process_results h rs = first_seen r_content rs" if "inj_on h (r_content ` set rs)"
  proof -
    have "first_seen (\<lambda>r. h (r_content r)) rs = first_seen r_content rs"
      using that by (intro first_seen_cong) (auto dest: inj_onD)
    then show ?thesis using a by simp
  qed
  have d: "process_results h [x, y\<lparr>r_content := r_content x\<rparr>] = [x]"
    by (simp add: process_results_def)
  show ?thesis
    using a b c d by (simp add: structure_documents_def)
qed

text \<open>
  C7 (the code at the failing input): \<^verbatim>\<open>synthesize([pageX, pageY], "json")\<close> with
  two pages of the same content. \<^verbatim>\<open>_process_results\<close> keeps the first page and
  \<^verbatim>\<open>_structure_documents\<close> makes one document of it, but \<^verbatim>\<open>synthesize\<close> then calls
  \<^verbatim>\<open>self._format_json\<close>, which \<^verbatim>\<open>DocumentSynthesizer\<close> does not define: it raises
  \<^verbatim>\<open>AttributeError\<close> and returns no document. In the repository \<open>synthesize\<close> raises
  for every list and every format. Only in a world where \<^verbatim>\<open>_format_json\<close> is defined
  and returns the documents it is given (the last conjunct) is the result the one
  document.
\<close>

theorem synthesize_duplicate_raises:
  "synthesize (repository W) rs fmt =
     Inl (if str_lower fmt = ''json'' \<or> str_lower fmt = ''markdown'' \<or> str_lower fmt = ''text''
          then AttributeError else ValueError (''Unsupported format: '' @ fmt))
   \<and> process_results (w_hash (example_world []))
        [example_result ''X'' ''hello world'', example_result ''Y'' ''hello world'']
       = [example_result ''X'' ''hello world'']
   \<and> structure_documents [example_result ''X'' ''hello world'']
       = [\<lparr>d_url = ''X'', d_content = ''hello world'', d_relevance_score = 9 / 10,
           d_source = ''web'', d_extracted_data = [], d_depth = 0, d_parent_url = []\<rparr>]
   \<and> synthesize (repository (example_world []))
        [example_result ''X'' ''hello world'', example_result ''Y'' ''hello world''] ''json''
       = Inl AttributeError
   \<and> synthesize (example_world [])
        [example_result ''X'' ''hello world'', example_result ''Y'' ''hello world''] ''json''
       = Inr (Documents
           [\<lparr>d_url = ''X'', d_content = ''hello world'', d_relevance_score = 9 / 10,
             d_source = ''web'', d_extracted_data = [], d_depth = 0, d_parent_url = []\<rparr>])"
proof -
  have p: "process_results (w_hash (example_world []))
        [example_result ''X'' ''hello world'', example_result ''Y'' ''hello world'']
       = [example_result ''X'' ''hello world'']"
    by (simp add: process_results_def example_world_def example_result_def)
  have d: "structure_documents [example_result ''X'' ''hello world'']
       = [\<lparr>d_url = ''X'', d_content = ''hello world'', d_relevance_score = 9 / 10,
           d_source = ''web'', d_extracted_data = [], d_depth = 0, d_parent_url = []\<rparr>]"
    by (simp add: structure_documents_def example_result_def)
  have j: "str_lower ''json'' = ''json''"
    by (simp add: str_lower_def lower_char_def)
  have r: "synthesize (repository (example_world []))
        [example_result ''X'' ''hello world'', example_result ''Y'' ''hello world''] ''json''
       = Inl AttributeError"
    by (simp add: synthesize_repository j)
  have w: "w_hash (repository (example_world [])) = w_hash (example_world [])"
    by (simp add: repository_def)
  have m: "synthesize (example_world [])
        [example_result ''X'' ''hello world'', example_result ''Y'' ''hello world''] ''json''
       = Inr (Documents
           [\<lparr>d_url = ''X'', d_content = ''hello world'', d_relevance_score = 9 / 10,
             d_source = ''web'', d_extracted_data = [], d_depth = 0, d_parent_url = []\<rparr>])"
    using p d by (simp add: synthesize_def j) (simp add: example_world_def)
  show ?thesis
    using synthesize_repository p d r m by blast
qed

subsection \<open>Unsupported output format\<close>

lemma saved_append: "saved (xs @ ys) = saved xs @ saved ys"
  by (induction xs rule: saved.induct) simp_all

lemma iteration_saved: "saved (trace (fst (scrape_iteration W i mr s))) = saved (trace s)"
proof (cases "urls_to_visit s")
  case Nil
  then show ?thesis by (simp add: scrape_iteration_def)
next
  case (Cons u rest)
  then show ?thesis by (simp add: iteration_trace saved_append)
qed

lemma loop_saved: "saved (trace (fst (scrape_loop W i mp mr (initial_state url i)))) = []"
proof -
  let ?P = "\<lambda>s. saved (trace s) = []"
  have step: "?P s'" if "?P s" "scrape_iteration W i mr s = (s', r)" for s s' r
    using iteration_saved [of W i mr s] that by simp
  have "(\<exists>s'. scrape_loop W i mp mr (initial_state url i) = (s', None) \<and> ?P s'
            \<and> \<not> loop_condition mp s')
       \<or> (\<exists>s0 s' e. scrape_loop W i mp mr (initial_state url i) = (s', Some e) \<and> ?P s0
            \<and> loop_condition mp s0 \<and> scrape_iteration W i mr s0 = (s', Some e))"
  proof (rule scrape_loop_cases [where P = ?P])
    show "?P (initial_state url i)"
      by (simp add: initial_state_def)
  next
    fix s s'
    assume "?P s" and "scrape_iteration W i mr s = (s', None)"
    then show "?P s'" by (rule step)
  qed
  then consider s' where "scrape_loop W i mp mr (initial_state url i) = (s', None)" "?P s'"
    | s0 s' e where "scrape_loop W i mp mr (initial_state url i) = (s', Some e)" "?P s0"
        "scrape_iteration W i mr s0 = (s', Some e)"
    by blast
  then show ?thesis
  proof cases
    case 1
    then show ?thesis by simp
  next
    case 2
    then show ?thesis using step [OF 2(2) 2(3)] by simp
  qed
qed

lemma synthesize_unsupported:
  assumes "str_lower fmt \<noteq> ''json''" "str_lower fmt \<noteq> ''markdown''" "str_lower fmt \<noteq> ''text''"
  shows "synthesize W rs fmt = Inl (ValueError (''Unsupported format: '' @ fmt))"
  using assms by (simp add: synthesize_def)

lemma scrape_unsupported:
  assumes "str_lower fmt \<noteq> ''json''" "str_lower fmt \<noteq> ''markdown''" "str_lower fmt \<noteq> ''text''"
  shows "isl (snd (scrape W url i mp mr fmt)) \<and> saved (fst (scrape W url i mp mr fmt)) = []"
proof -
  obtain s r where l: "scrape_loop W i mp mr (initial_state url i) = (s, r)"
    by (cases "scrape_loop W i mp mr (initial_state url i)")
  have sv: "saved (trace s) = []"
    using loop_saved [of W i mp mr url] l by simp
  have "isl (synthesize_results W (results s) fmt)"
    using synthesize_unsupported [OF assms] by (simp add: synthesize_results_def split: list.splits)
  then show ?thesis
    using l sv by (cases r; cases "synthesize_results W (results s) fmt")
      (simp_all add: scrape_def saved_append)
qed

text \<open>
  C9 (as stated, refuted on the sample site): the claim says a run with an unsupported
  format fails with the unsupported-format error before any crawling starts. With the
  format \<^verbatim>\<open>xml\<close> the page C is fetched before the error is raised; and when the fetch
  of C raises, the run ends with the fetch error, not with the unsupported-format error.
\<close>

theorem unsupported_format_counterexample:
  "scrape (example_world []) ''C'' ''goal'' 10 (7 / 10) ''xml''
     = ([Info_starting ''goal'', Debug_crawling ''C'', Call_crawl ''C'',
         Error_scraping (ValueError ''Unsupported format: xml'')],
        Inl (ValueError ''Unsupported format: xml''))
   \<and> scrape (example_world [''C'']) ''C'' ''goal'' 10 (7 / 10) ''xml''
     = ([Info_starting ''goal'', Debug_crawling ''C'', Call_crawl ''C'',
         Error_scraping (Raised ''RequestException'')],
        Inl (Raised ''RequestException''))"
  by (simp add: scrape_def scrape_loop.simps example_eval synthesize_results_def synthesize_def
      str_lower_def lower_char_def)

text \<open>
  C9 (amended): for an output format whose lower-case form is none of \<^verbatim>\<open>json\<close>,
  \<^verbatim>\<open>markdown\<close>, \<^verbatim>\<open>text\<close>, \<open>synthesize\<close> raises the unsupported-format
  \<^verbatim>\<open>ValueError\<close>; \<open>scrape\<close> always ends in an exception, returns no documents and
  never calls \<^verbatim>\<open>save\<close>, but it checks the format only after the crawl loop: the pages
  fetched are those the loop fetches, and the exception is the unsupported-format error
  when the loop ends without an exception and with no result.
\<close>

theorem unsupported_format:
  "str_lower fmt \<noteq> ''json'' \<and> str_lower fmt \<noteq> ''markdown'' \<and> str_lower fmt \<noteq> ''text'' \<longrightarrow>
     synthesize W rs fmt = Inl (ValueError (''Unsupported format: '' @ fmt))
     \<and> isl (snd (scrape W url i mp mr fmt))
     \<and> saved (fst (scrape W url i mp mr fmt)) = []
     \<and> fetched (fst (scrape W url i mp mr fmt))
         = fetched (trace (fst (scrape_loop W i mp mr (initial_state url i))))
     \<and> (scrape_loop W i mp mr (initial_state url i) = (s, None) \<and> results s = [] \<longrightarrow>
          scrape W url i mp mr fmt =
            (trace s @ [Error_scraping (ValueError (''Unsupported format: '' @ fmt))],
             Inl (ValueError (''Unsupported format: '' @ fmt))))"
proof -
  have "scrape W url i mp mr fmt =
            (trace s @ [Error_scraping (ValueError (''Unsupported format: '' @ fmt))],
             Inl (ValueError (''Unsupported format: '' @ fmt)))"
    if "str_lower fmt \<noteq> ''json''" "str_lower fmt \<noteq> ''markdown''" "str_lower fmt \<noteq> ''text''"
      and "scrape_loop W i mp mr (initial_state url i) = (s, None)" "results s = []"
    using that by (simp add: scrape_def synthesize_results_def synthesize_def)
  then show ?thesis
    using synthesize_unsupported [of fmt W rs] scrape_unsupported [of fmt W url i mp mr]
      fetched_scrape [of W url i mp mr fmt]
    by blast
qed

theorem unsupported_format_witness:
  "str_lower ''XML'' \<noteq> ''json'' \<and> str_lower ''XML'' \<noteq> ''markdown'' \<and> str_lower ''XML'' \<noteq> ''text''
   \<and> synthesize (example_world []) [] ''XML'' = Inl (ValueError ''Unsupported format: XML'')
   \<and> scrape_loop (example_world []) ''goal'' 10 (7 / 10) (initial_state ''C'' ''goal'')
       = (\<lparr>urls_to_visit = [], visited_urls = {|''C''|}, results = [],
           trace = [Info_starting ''goal'', Debug_crawling ''C'', Call_crawl ''C'']\<rparr>, None)
   \<and> scrape (example_world []) ''C'' ''goal'' 10 (7 / 10) ''XML''
       = ([Info_starting ''goal'', Debug_crawling ''C'', Call_crawl ''C'',
           Error_scraping (ValueError ''Unsupported format: XML'')],
          Inl (ValueError ''Unsupported format: XML''))"
proof -
  let ?W = "example_world []"
  let ?s = "\<lparr>urls_to_visit = [], visited_urls = {|''C''|}, results = [],
           trace = [Info_starting ''goal'', Debug_crawling ''C'', Call_crawl ''C'']\<rparr>"
  have h: "str_lower ''XML'' \<noteq> ''json'' \<and> str_lower ''XML'' \<noteq> ''markdown''
      \<and> str_lower ''XML'' \<noteq> ''text''"
    by (simp add: str_lower_def lower_char_def)
  have l: "scrape_loop ?W ''goal'' 10 (7 / 10) (initial_state ''C'' ''goal'') = (?s, None)"
    by (simp add: scrape_loop.simps example_eval)
  have r: "results ?s = []"
    by simp
  note t = unsupported_format [where fmt = "''XML''" and W = ?W and rs = "[]" and url = "''C''"
      and i = "''goal''" and mp = 10 and mr = "7 / 10" and s = ?s]
  have a: "synthesize ?W [] ''XML'' = Inl (ValueError ''Unsupported format: XML'')"
    using t h by simp
  have b: "scrape ?W ''C'' ''goal'' 10 (7 / 10) ''XML''
       = (trace ?s @ [Error_scraping (ValueError (''Unsupported format: '' @ ''XML''))],
          Inl (ValueError (''Unsupported format: '' @ ''XML'')))"
    using t h l r by blast
  show ?thesis
    using h a l b by simp
qed

subsection \<open>Failures of one seed among several\<close>








subsection \<open>Exploration priority\<close>

text \<open>
  C6 (as stated, refuted at relevance 0): the priority is claimed to be strictly
  decreasing in depth for every fixed relevance. At relevance 0 the priority is 0 at
  depths 0, 1 and 2 alike.
\<close>

theorem priority_zero_relevance_counterexample:
  "calculate_exploration_priority 0 0 = Inr 0
   \<and> calculate_exploration_priority 0 1 = Inr 0
   \<and> calculate_exploration_priority 0 2 = Inr 0"
  by (simp add: calculate_exploration_priority_def)

text \<open>
  C6 (amended): at every depth \<open>d \<ge> 0\<close> the call returns relevance times
  \<open>1 / (1 + d)\<close>; for a fixed relevance \<open>r > 0\<close> the priority is strictly decreasing in
  depth, and for \<open>r = 0\<close> it is 0 at every depth.
\<close>

theorem exploration_priority_depth:
  assumes "0 \<le> d" and "d < d'"
  shows "calculate_exploration_priority r d = Inr (r * (1 / (1 + real_of_int d)))
       \<and> calculate_exploration_priority r d' = Inr (r * (1 / (1 + real_of_int d')))
       \<and> (0 < r \<longrightarrow> r * (1 / (1 + real_of_int d')) < r * (1 / (1 + real_of_int d)))
       \<and> (r = 0 \<longrightarrow> calculate_exploration_priority r d = Inr 0
                   \<and> calculate_exploration_priority r d' = Inr 0)"
proof -
  have pos: "0 < 1 + real_of_int d" "0 < 1 + real_of_int d'"
    using assms by simp_all
  have lt: "1 / (1 + real_of_int d') < 1 / (1 + real_of_int d)"
    using assms pos by (simp add: frac_less2)
  have nz: "1 + d \<noteq> 0" "1 + d' \<noteq> 0"
    using assms by simp_all
  have strict: "0 < r \<Longrightarrow> r * (1 / (1 + real_of_int d')) < r * (1 / (1 + real_of_int d))"
    using lt by (rule mult_strict_left_mono)
  have eqs: "calculate_exploration_priority r d = Inr (r * (1 / (1 + real_of_int d)))"
            "calculate_exploration_priority r d' = Inr (r * (1 / (1 + real_of_int d')))"
    using nz by (simp_all add: calculate_exploration_priority_def)
  have zero: "calculate_exploration_priority 0 d = Inr 0"
             "calculate_exploration_priority 0 d' = Inr 0"
    using nz by (simp_all add: calculate_exploration_priority_def)
  show ?thesis
    using strict eqs zero by blast
qed

theorem exploration_priority_depth_witness:
  "(0::int) \<le> 0 \<and> (0::int) < 1 \<and> (0::real) < 4 / 5
   \<and> calculate_exploration_priority (4 / 5) 0 = Inr (4 / 5)
   \<and> calculate_exploration_priority (4 / 5) 1 = Inr (2 / 5)
   \<and> (2 / 5 :: real) < 4 / 5
   \<and> (0::int) \<le> 1 \<and> (1::int) < 2 \<and> (0::real) = 0
   \<and> calculate_exploration_priority 0 1 = Inr 0
   \<and> calculate_exploration_priority 0 2 = Inr 0"
  using exploration_priority_depth [of 0 1 "4 / 5"] exploration_priority_depth [of 1 2 0]
  by simp

subsection \<open>Information density\<close>

text \<open>
  C8 (the code at the failing input): for the empty content the token list is empty and
  the division raises \<^verbatim>\<open>ZeroDivisionError\<close>; no guard returns 0.
\<close>

theorem information_density_empty_content:
  "information_density [] = Inl ZeroDivisionError
   \<and> information_density '' '' = Inl ZeroDivisionError"
  by (simp add: information_density_def str_split_def is_space_def)

end
